theory Spec2Isabelle
  imports Main
begin

section \<open>Data model\<close>

text \<open>
  The response types of \<^verbatim>\<open>api/client.ts\<close> (\<^verbatim>\<open>Cell\<close>, \<^verbatim>\<open>CellSet\<close>, \<^verbatim>\<open>CellSetGroup\<close>,
  \<^verbatim>\<open>RawLog\<close>) and the derived types of \<^verbatim>\<open>api/types.ts\<close>. An optional or nullable
  field is an \<open>option\<close>: \<^verbatim>\<open>undefined\<close> and \<^verbatim>\<open>null\<close> are both \<open>None\<close>, which is all
  that \<^verbatim>\<open>?.\<close>, \<^verbatim>\<open>??\<close> and the truthiness tests of the source distinguish.
  JavaScript numbers are kept abstract as a type variable \<open>'n\<close>; the built-ins
  \<^verbatim>\<open>parseFloat\<close>, \<^verbatim>\<open>parseInt(_, 10)\<close> and the number-to-string conversion are
  parameters of the functions that call them; a model of the two parsers follows the
  remote calls.
  Fields that would clash between records or with HOL constants carry a short prefix.
\<close>

record Cell =
  cellType :: string
  cvalue :: "string option"

record CellSet =
  cells :: "Cell list"
  isCompleted :: "bool option"

record Link =
  href :: "string option"

record Links =
  measurement :: "Link option"

record CellSetGroup =
  links :: "Links option"
  cellSets :: "CellSet list"

record Embedded =
  cellSetGroup :: "CellSetGroup list option"

record LocalizedName =
  en :: "string option"
  custom :: "string option"

record RawLog =
  log_id :: string
  log_name :: "LocalizedName option"
  logType :: "string option"
  log_startDate :: "string option"
  log_endDate :: "string option"
  timezoneId :: "string option"
  embedded :: "Embedded option"

record 'n WorkoutSet =
  weightKg :: "'n option"
  reps :: "'n option"
  rpe :: "'n option"
  distance :: "'n option"
  duration :: "string option"

record 'n WorkoutExercise =
  ex_name :: string
  completedSets :: "'n WorkoutSet list"
  skippedSets :: "'n WorkoutSet list"

record 'n Workout =
  w_id :: string
  w_name :: "string option"
  startDate :: "string option"
  endDate :: "string option"
  timezone :: "string option"
  exercises :: "'n WorkoutExercise list"

record 'n ExportData =
  exportedAt :: string
  totalWorkouts :: nat
  workouts :: "'n Workout list"

text \<open>The object \<^verbatim>\<open>{ set, completed }\<close> that \<^verbatim>\<open>parseSet\<close> returns.\<close>

record 'n ParsedSet =
  parsed_set :: "'n WorkoutSet"
  completed :: "bool option"

section \<open>The cell decoder: \<^verbatim>\<open>parseSet\<close>\<close>

definition WEIGHT_CELL_TYPES :: "string set" where
  "WEIGHT_CELL_TYPES =
     {''OTHER_WEIGHT'', ''DUMBBELL_WEIGHT'', ''BARBELL_WEIGHT'', ''WEIGHTED_BODYWEIGHT''}"

text \<open>
  \<^verbatim>\<open>cell?.value ? parse(cell.value) : null\<close>: the value is parsed when the cell was found
  and its value is a non-empty string (the only truthy strings).
\<close>

definition parsedValue :: "(string \<Rightarrow> 'n) \<Rightarrow> Cell option \<Rightarrow> 'n option" where
  "parsedValue parse cell =
     (case cell of
        None \<Rightarrow> None
      | Some c \<Rightarrow>
          (case cvalue c of
             None \<Rightarrow> None
           | Some v \<Rightarrow> if v \<noteq> [] then Some (parse v) else None))"

definition parseSet ::
  "(string \<Rightarrow> 'n) \<Rightarrow> (string \<Rightarrow> 'n) \<Rightarrow> CellSet \<Rightarrow> 'n ParsedSet option" where
  "parseSet parseFloat parseInt cellSet =
     (let types = map cellType (cells cellSet) in
      if ''REST_TIMER'' \<in> set types \<or> ''NOTE'' \<in> set types then None
      else
        let weightCell = find (\<lambda>c. cellType c \<in> WEIGHT_CELL_TYPES) (cells cellSet);
            repsCell = find (\<lambda>c. cellType c = ''REPS'') (cells cellSet);
            rpeCell = find (\<lambda>c. cellType c = ''RPE'') (cells cellSet);
            distanceCell = find (\<lambda>c. cellType c = ''DISTANCE'') (cells cellSet);
            durationCell = find (\<lambda>c. cellType c = ''DURATION'') (cells cellSet)
        in Some \<lparr>parsed_set =
                   \<lparr>weightKg = parsedValue parseFloat weightCell,
                    reps = parsedValue parseInt repsCell,
                    rpe = parsedValue parseFloat rpeCell,
                    distance = parsedValue parseFloat distanceCell,
                    duration = Option.bind durationCell cvalue\<rparr>,
                 completed = isCompleted cellSet\<rparr>)"

section \<open>The log transformer: \<^verbatim>\<open>transformLogs\<close>\<close>

text \<open>\<^verbatim>\<open>String.prototype.split\<close> on a one-character separator; never empty.\<close>

fun splitOn :: "char \<Rightarrow> string \<Rightarrow> string list" where
  "splitOn d [] = [[]]"
| "splitOn d (c # cs) =
     (if c = d then [] # splitOn d cs
      else (case splitOn d cs of
              [] \<Rightarrow> [[c]]
            | x # xs \<Rightarrow> (c # x) # xs))"

text \<open>\<^verbatim>\<open>xs.pop() ?? ""\<close>: the last element, the empty string on an empty array.\<close>

definition popOrEmpty :: "string list \<Rightarrow> string" where
  "popOrEmpty xs = (case rev xs of [] \<Rightarrow> [] | x # _ \<Rightarrow> x)"

text \<open>\<^verbatim>\<open>group._links?.measurement?.href ?? ""\<close>\<close>

definition measurementHref :: "CellSetGroup \<Rightarrow> string" where
  "measurementHref grp =
     (case Option.bind (Option.bind (links grp) measurement) href of
        None \<Rightarrow> []
      | Some h \<Rightarrow> h)"

text \<open>The body of the inner \<^verbatim>\<open>.map((group) => ...)\<close> of \<^verbatim>\<open>transformLogs\<close>.\<close>

definition groupToExercise ::
  "(string \<Rightarrow> 'n) \<Rightarrow> (string \<Rightarrow> 'n) \<Rightarrow> (string \<rightharpoonup> string) \<Rightarrow> CellSetGroup
     \<Rightarrow> 'n WorkoutExercise" where
  "groupToExercise parseFloat parseInt measurementMap grp =
     (let measurementId = popOrEmpty (splitOn (CHR ''/'') (measurementHref grp));
          name = (case measurementMap measurementId of None \<Rightarrow> ''Unknown'' | Some n \<Rightarrow> n);
          parsed = List.map_filter (parseSet parseFloat parseInt) (cellSets grp)
      in \<lparr>ex_name = name,
          completedSets = map parsed_set (filter (\<lambda>p. completed p \<noteq> Some False) parsed),
          skippedSets = map parsed_set (filter (\<lambda>p. completed p = Some False) parsed)\<rparr>)"

text \<open>\<^verbatim>\<open>log._embedded?.cellSetGroup ?? []\<close>\<close>

definition groupsOf :: "RawLog \<Rightarrow> CellSetGroup list" where
  "groupsOf log =
     (case Option.bind (embedded log) cellSetGroup of None \<Rightarrow> [] | Some gs \<Rightarrow> gs)"

text \<open>The body of the outer \<^verbatim>\<open>.map((log) => ...)\<close> of \<^verbatim>\<open>transformLogs\<close>.\<close>

definition logToWorkout ::
  "(string \<Rightarrow> 'n) \<Rightarrow> (string \<Rightarrow> 'n) \<Rightarrow> (string \<rightharpoonup> string) \<Rightarrow> RawLog \<Rightarrow> 'n Workout" where
  "logToWorkout parseFloat parseInt measurementMap log =
     (let exs = filter (\<lambda>e. length (completedSets e) + length (skippedSets e) > 0)
                  (map (groupToExercise parseFloat parseInt measurementMap) (groupsOf log))
      in \<lparr>w_id = log_id log,
          w_name = (case Option.bind (log_name log) en of
                      Some n \<Rightarrow> Some n
                    | None \<Rightarrow> Option.bind (log_name log) custom),
          startDate = log_startDate log,
          endDate = log_endDate log,
          timezone = timezoneId log,
          exercises = exs\<rparr>)"

definition keptType :: "RawLog \<Rightarrow> bool" where
  "keptType log \<longleftrightarrow> logType log = Some ''WORKOUT'' \<or> logType log = Some ''LOG''"

definition transformLogs ::
  "(string \<Rightarrow> 'n) \<Rightarrow> (string \<Rightarrow> 'n) \<Rightarrow> RawLog list \<Rightarrow> (string \<rightharpoonup> string) \<Rightarrow> 'n Workout list" where
  "transformLogs parseFloat parseInt logs measurementMap =
     rev (map (logToWorkout parseFloat parseInt measurementMap) (filter keptType logs))"

section \<open>The CSV serializer: \<^verbatim>\<open>toCSV\<close>\<close>

text \<open>\<^verbatim>\<open>Array.prototype.join\<close>\<close>

fun join :: "string \<Rightarrow> string list \<Rightarrow> string" where
  "join sep [] = []"
| "join sep [x] = x"
| "join sep (x # y # ys) = x @ sep @ join sep (y # ys)"

definition dquote :: char where
  "dquote = CHR 0x22"

definition newline :: char where
  "newline = CHR 0x0A"

text \<open>\<^verbatim>\<open>s.replace(/"/g, '""')\<close>: every double quote becomes two.\<close>

definition replaceQuotes :: "string \<Rightarrow> string" where
  "replaceQuotes s = concat (map (\<lambda>c. if c = dquote then [dquote, dquote] else [c]) s)"

text \<open>The decimal rendering of the set number \<^verbatim>\<open>i + 1\<close>.\<close>

fun showNat :: "nat \<Rightarrow> string" where
  "showNat n =
     (if n < 10 then [''0123456789'' ! n]
      else showNat (n div 10) @ [''0123456789'' ! (n mod 10)])"

declare showNat.simps [simp del]

text \<open>\<^verbatim>\<open>x ?? ""\<close> inside the joined array: an absent field renders as the empty string.\<close>

definition orEmpty :: "('a \<Rightarrow> string) \<Rightarrow> 'a option \<Rightarrow> string" where
  "orEmpty render x = (case x of None \<Rightarrow> [] | Some v \<Rightarrow> render v)"

definition CSV_HEADER :: string where
  "CSV_HEADER =
     ''date,workoutName,exerciseName,setNumber,weightKg,reps,rpe,distance,duration,status''"

text \<open>\<^verbatim>\<open>allSets\<close>: the completed sets, then the skipped ones, each with its status.\<close>

definition allSets :: "'n WorkoutExercise \<Rightarrow> ('n WorkoutSet \<times> string) list" where
  "allSets exercise =
     map (\<lambda>s. (s, ''completed'')) (completedSets exercise) @
     map (\<lambda>s. (s, ''skipped'')) (skippedSets exercise)"

text \<open>The ten-element array that is joined with commas into one row.\<close>

definition rowFields ::
  "('n \<Rightarrow> string) \<Rightarrow> 'n Workout \<Rightarrow> 'n WorkoutExercise \<Rightarrow> nat \<Rightarrow> 'n WorkoutSet \<times> string
     \<Rightarrow> string list" where
  "rowFields showNum workout exercise i st =
     [orEmpty (\<lambda>d. d) (startDate workout),
      [dquote] @ replaceQuotes (orEmpty (\<lambda>n. n) (w_name workout)) @ [dquote],
      [dquote] @ replaceQuotes (ex_name exercise) @ [dquote],
      showNat (i + 1),
      orEmpty showNum (weightKg (fst st)),
      orEmpty showNum (reps (fst st)),
      orEmpty showNum (rpe (fst st)),
      orEmpty showNum (distance (fst st)),
      orEmpty (\<lambda>d. d) (duration (fst st)),
      snd st]"

definition exerciseRows ::
  "('n \<Rightarrow> string) \<Rightarrow> 'n Workout \<Rightarrow> 'n WorkoutExercise \<Rightarrow> string list" where
  "exerciseRows showNum workout exercise =
     map (\<lambda>(i, st). join '','' (rowFields showNum workout exercise i st))
       (enumerate 0 (allSets exercise))"

text \<open>The array \<^verbatim>\<open>lines\<close> when both loops have run.\<close>

definition csvLines :: "('n \<Rightarrow> string) \<Rightarrow> 'n ExportData \<Rightarrow> string list" where
  "csvLines showNum data =
     CSV_HEADER #
     concat (map (\<lambda>workout. concat (map (exerciseRows showNum workout) (exercises workout)))
               (workouts data))"

definition toCSV :: "('n \<Rightarrow> string) \<Rightarrow> 'n ExportData \<Rightarrow> string" where
  "toCSV showNum data = join [newline] (csvLines showNum data)"

section \<open>The remote calls\<close>

text \<open>
  One HTTP exchange: the request fails in transport, or a response arrives with a status,
  a body text (\<open>None\<close> when reading it fails) and the body decoded as JSON of the shape the
  source casts it to (\<open>None\<close> when reading or decoding fails).
\<close>

datatype 'j HttpResult =
    RequestFailed
  | Response (status: nat) (body_text: "string option") (json: "'j option")

text \<open>
  The failures in the error channel: the HTTP client's own error, and \<^verbatim>\<open>StrongApiError\<close>
  with its message, optional status and optional cause.
\<close>

datatype Err =
    HttpClientError
  | StrongApiError (message: string) (err_status: "nat option") (cause: "Err option")

record Measurement =
  m_id :: string
  m_name :: "LocalizedName option"

text \<open>A page of a measurement catalog; \<open>mp_next\<close> is the truthiness of \<^verbatim>\<open>_links?.next\<close>.\<close>

record MeasurementsPage =
  mp_measurement :: "Measurement list option"
  mp_next :: bool

text \<open>A page of the log feed: \<^verbatim>\<open>_embedded?.log\<close> and \<^verbatim>\<open>_links?.continuation?.href\<close>.\<close>

record LogsPage =
  lp_log :: "RawLog list option"
  lp_href :: "string option"

subsection \<open>The measurement lookup builder: \<^verbatim>\<open>fetchMeasurements\<close>\<close>

text \<open>\<^verbatim>\<open>m.name?.custom ?? m.name?.en ?? m.id\<close>\<close>

definition measurementName :: "Measurement \<Rightarrow> string" where
  "measurementName m =
     (case Option.bind (m_name m) custom of
        Some n \<Rightarrow> n
      | None \<Rightarrow> (case Option.bind (m_name m) en of Some n \<Rightarrow> n | None \<Rightarrow> m_id m))"

text \<open>The \<^verbatim>\<open>for (const m of measurements) map.set(m.id, name)\<close> loop.\<close>

definition setAll :: "(string \<rightharpoonup> string) \<Rightarrow> Measurement list \<Rightarrow> (string \<rightharpoonup> string)" where
  "setAll mp ms = foldl (\<lambda>acc m. acc(m_id m \<mapsto> measurementName m)) mp ms"

definition measurementsOf :: "MeasurementsPage \<Rightarrow> Measurement list" where
  "measurementsOf data = (case mp_measurement data of None \<Rightarrow> [] | Some ms \<Rightarrow> ms)"

text \<open>
  The \<^verbatim>\<open>while (true)\<close> loop of \<^verbatim>\<open>fetchFromEndpoint\<close>. The server is a function from the page
  number to the exchange. The loop may go on for ever, so it carries fuel: \<open>None\<close> is
  "still running when the fuel ran out".
\<close>

fun fetchFromEndpoint ::
  "nat \<Rightarrow> (nat \<Rightarrow> MeasurementsPage HttpResult) \<Rightarrow> nat \<Rightarrow> (string \<rightharpoonup> string)
     \<Rightarrow> (Err + (string \<rightharpoonup> string)) option" where
  "fetchFromEndpoint 0 server page mp = None"
| "fetchFromEndpoint (Suc fuel) server page mp =
     (case server page of
        RequestFailed \<Rightarrow> Some (Inl HttpClientError)
      | Response st txt js \<Rightarrow>
          if st \<noteq> 200 then Some (Inr mp)
          else (case js of
                  None \<Rightarrow> Some (Inl HttpClientError)
                | Some data \<Rightarrow>
                    let measurements = measurementsOf data;
                        mp' = setAll mp measurements
                    in if \<not> mp_next data \<or> length measurements = 0 then Some (Inr mp')
                       else fetchFromEndpoint fuel server (page + 1) mp'))"

text \<open>
  The \<^verbatim>\<open>Effect.catchAll\<close> at the end of both fetchers: every failure of the body is
  replaced by a \<^verbatim>\<open>StrongApiError\<close> with a fixed message, no status, and the original
  failure as its cause.
\<close>

definition catchAllApi :: "string \<Rightarrow> (Err + 'a) option \<Rightarrow> (Err + 'a) option" where
  "catchAllApi msg r =
     (case r of
        None \<Rightarrow> None
      | Some (Inl e) \<Rightarrow> Some (Inl (StrongApiError msg None (Some e)))
      | Some (Inr v) \<Rightarrow> Some (Inr v))"

text \<open>
  \<^verbatim>\<open>fetchMeasurements\<close>: the global catalog, then the user's, into one map, under the
  \<^verbatim>\<open>catchAll\<close>. The server is a function from the endpoint's base URL and the page number.
\<close>

definition fetchMeasurements ::
  "nat \<Rightarrow> (string \<Rightarrow> nat \<Rightarrow> MeasurementsPage HttpResult) \<Rightarrow> string
     \<Rightarrow> (Err + (string \<rightharpoonup> string)) option" where
  "fetchMeasurements fuel server userId =
     catchAllApi ''Failed to fetch measurements''
       (case fetchFromEndpoint fuel (server ''api/measurements'') 0 Map.empty of
          None \<Rightarrow> None
        | Some (Inl e) \<Rightarrow> Some (Inl e)
        | Some (Inr mp1) \<Rightarrow>
            fetchFromEndpoint fuel (server (''api/users/'' @ userId @ ''/measurements'')) 0 mp1)"

subsection \<open>The log fetcher: \<^verbatim>\<open>fetchWorkoutLogs\<close>\<close>

text \<open>
  The \<^verbatim>\<open>while (true)\<close> loop of \<^verbatim>\<open>fetchWorkoutLogs\<close>. The request is determined by the
  continuation token, so the server is a function from the token to the exchange.
  \<open>continuationOf\<close> stands for the library call
  \<^verbatim>\<open>new URL(nextHref, backend).searchParams.get("continuation")\<close>. Fuel as above.
\<close>

fun fetchLogsLoop ::
  "nat \<Rightarrow> (string \<Rightarrow> LogsPage HttpResult) \<Rightarrow> (string \<Rightarrow> string option) \<Rightarrow> string
     \<Rightarrow> RawLog list \<Rightarrow> (Err + RawLog list) option" where
  "fetchLogsLoop 0 server continuationOf continuation logs = None"
| "fetchLogsLoop (Suc fuel) server continuationOf continuation logs =
     (case server continuation of
        RequestFailed \<Rightarrow> Some (Inl HttpClientError)
      | Response st txt js \<Rightarrow>
          if st \<noteq> 200 then
            (case txt of
               None \<Rightarrow> Some (Inl HttpClientError)
             | Some t \<Rightarrow>
                 Some (Inl (StrongApiError
                              (''Failed to fetch logs: '' @ showNat st @ '' - '' @ t)
                              (Some st) None)))
          else (case js of
                  None \<Rightarrow> Some (Inl HttpClientError)
                | Some data \<Rightarrow>
                    let batch = (case lp_log data of None \<Rightarrow> [] | Some b \<Rightarrow> b);
                        logs' = logs @ batch
                    in (case lp_href data of
                          None \<Rightarrow> Some (Inr logs')
                        | Some nextHref \<Rightarrow>
                            if nextHref = [] \<or> length batch = 0 then Some (Inr logs')
                            else
                              let continuation' =
                                    (case continuationOf nextHref of None \<Rightarrow> [] | Some c \<Rightarrow> c)
                              in if continuation' = [] then Some (Inr logs')
                                 else fetchLogsLoop fuel server continuationOf
                                        continuation' logs')))"

text \<open>
  \<^verbatim>\<open>fetchWorkoutLogs\<close>: the loop from the empty token and no logs, under the
  \<^verbatim>\<open>catchAll\<close>.
\<close>

definition fetchWorkoutLogs ::
  "nat \<Rightarrow> (string \<Rightarrow> LogsPage HttpResult) \<Rightarrow> (string \<Rightarrow> string option)
     \<Rightarrow> (Err + RawLog list) option" where
  "fetchWorkoutLogs fuel server continuationOf =
     catchAllApi ''Failed to fetch workout logs''
       (fetchLogsLoop fuel server continuationOf [] [])"

section \<open>The built-in parsers\<close>












section \<open>Specification-side definitions\<close>




text \<open>
  The partition of a group's cell-sets in the specification's words, one cell-set at a
  time: decode it, discard "no set", put it with the completed sets when its flag is true
  or absent and with the skipped sets when its flag is exactly false.
\<close>

fun partitionSpec ::
  "(string \<Rightarrow> 'n) \<Rightarrow> (string \<Rightarrow> 'n) \<Rightarrow> CellSet list
     \<Rightarrow> 'n WorkoutSet list \<times> 'n WorkoutSet list" where
  "partitionSpec pf pi [] = ([], [])"
| "partitionSpec pf pi (cs # rest) =
     (let (done, skipped) = partitionSpec pf pi rest in
      case parseSet pf pi cs of
        None \<Rightarrow> (done, skipped)
      | Some p \<Rightarrow>
          if completed p = Some True \<or> completed p = None then (parsed_set p # done, skipped)
          else if completed p = Some False then (done, parsed_set p # skipped)
          else (done, skipped))"

text \<open>
  Pagination of one measurement endpoint. A page lets the loop go on when its status is
  200, its body decodes, it has a next link and at least one item; a page has a bad
  status when a response arrived whose status is not 200. \<open>gatherPages server page k mp\<close>
  is the map after the items of the \<open>k\<close> pages from \<open>page\<close> on have been set in \<open>mp\<close>.
\<close>

definition continuing :: "MeasurementsPage HttpResult \<Rightarrow> bool" where
  "continuing r \<longleftrightarrow>
     (case r of
        RequestFailed \<Rightarrow> False
      | Response st txt js \<Rightarrow>
          st = 200 \<and>
          (case js of
             None \<Rightarrow> False
           | Some data \<Rightarrow> mp_next data \<and> measurementsOf data \<noteq> []))"

definition badStatus :: "'j HttpResult \<Rightarrow> bool" where
  "badStatus r \<longleftrightarrow> (case r of RequestFailed \<Rightarrow> False | Response st txt js \<Rightarrow> st \<noteq> 200)"

fun gatherPages ::
  "(nat \<Rightarrow> MeasurementsPage HttpResult) \<Rightarrow> nat \<Rightarrow> nat \<Rightarrow> (string \<rightharpoonup> string)
     \<Rightarrow> (string \<rightharpoonup> string)" where
  "gatherPages server page 0 mp = mp"
| "gatherPages server page (Suc k) mp =
     gatherPages server (page + 1) k
       (case server page of
          RequestFailed \<Rightarrow> mp
        | Response st txt js \<Rightarrow>
            (case js of None \<Rightarrow> mp | Some data \<Rightarrow> setAll mp (measurementsOf data)))"

section \<open>Example inputs\<close>

text \<open>
  The log of \<^verbatim>\<open>makeLog\<close> in \<^verbatim>\<open>client.test.ts\<close>, with its id, type tag, name and the
  cell-sets of its single group as arguments, and a weight-and-reps cell-set as the tests
  build it. In the examples a number is represented by its text, so both parsers are the
  identity.
\<close>

definition makeLog :: "string \<Rightarrow> string \<Rightarrow> LocalizedName option \<Rightarrow> CellSet list \<Rightarrow> RawLog" where
  "makeLog i ty nm css =
     \<lparr>log_id = i, log_name = nm, logType = Some ty,
      log_startDate = Some ''2026-01-01T10:00:00Z'',
      log_endDate = Some ''2026-01-01T11:00:00Z'',
      timezoneId = None,
      embedded = Some \<lparr>cellSetGroup = Some
        [\<lparr>links = Some \<lparr>measurement = Some \<lparr>href = Some ''/api/measurements/abc123''\<rparr>\<rparr>,
          cellSets = css\<rparr>]\<rparr>\<rparr>"

definition weightReps :: "string \<Rightarrow> string \<Rightarrow> bool option \<Rightarrow> CellSet" where
  "weightReps w r c =
     \<lparr>cells = [\<lparr>cellType = ''BARBELL_WEIGHT'', cvalue = Some w\<rparr>,
               \<lparr>cellType = ''REPS'', cvalue = Some r\<rparr>],
      isCompleted = c\<rparr>"

definition restTimer :: CellSet where
  "restTimer =
     \<lparr>cells = [\<lparr>cellType = ''REST_TIMER'', cvalue = Some ''60''\<rparr>,
               \<lparr>cellType = ''REPS'', cvalue = Some ''5''\<rparr>],
      isCompleted = Some True\<rparr>"

text \<open>
  A measurement server whose global catalog has one page of one item with a next link
  and then answers 500, and whose user catalog answers 503 at once.
\<close>

definition exampleCatalog :: "string \<Rightarrow> nat \<Rightarrow> MeasurementsPage HttpResult" where
  "exampleCatalog url page =
     (if url = ''api/measurements'' then
        (if page = 0 then
           Response 200 None
             (Some \<lparr>mp_measurement =
                      Some [\<lparr>m_id = ''abc123'',
                             m_name = Some \<lparr>en = Some ''Squat (Barbell)'', custom = None\<rparr>\<rparr>],
                    mp_next = True\<rparr>)
         else Response 500 (Some ''error'') None)
      else Response 503 (Some ''down'') None)"

text \<open>The export of the CSV example in the README: one workout, one exercise, one set.\<close>

definition pushDay :: "string ExportData" where
  "pushDay =
     \<lparr>exportedAt = ''2026-02-17T00:00:00Z'', totalWorkouts = 1,
      workouts =
        [\<lparr>w_id = ''w1'', w_name = Some ''Push Day'',
          startDate = Some ''2026-02-15T10:00:00Z'', endDate = None, timezone = None,
          exercises =
            [\<lparr>ex_name = ''Bench Press (Barbell)'',
              completedSets =
                [\<lparr>weightKg = Some ''80'', reps = Some ''5'', rpe = None, distance = None,
                  duration = None\<rparr>],
              skippedSets = []\<rparr>]\<rparr>]\<rparr>"

section \<open>The cell decoder\<close>










text \<open>
  C6: for every cell-set whose cell types contain the rest-timer or the note marker,
  \<open>parseSet\<close> returns "no set", whatever other cells are present; for every other cell-set it
  returns a set together with the cell-set's own completed flag, unchanged (true, false
  or absent).
\<close>

theorem parseSet_markers:
  "(''REST_TIMER'' \<in> cellType ` set (cells cs) \<or> ''NOTE'' \<in> cellType ` set (cells cs)
      \<longrightarrow> parseSet pf pi cs = None) \<and>
   (\<not> (''REST_TIMER'' \<in> cellType ` set (cells cs) \<or> ''NOTE'' \<in> cellType ` set (cells cs))
      \<longrightarrow> (\<exists>ws. parseSet pf pi cs = Some \<lparr>parsed_set = ws, completed = isCompleted cs\<rparr>))"
  by (simp add: parseSet_def Let_def)

theorem parseSet_markers_witness:
  "parseSet (\<lambda>s. s) (\<lambda>s. s) restTimer = None \<and>
   (\<exists>ws. parseSet (\<lambda>s. s) (\<lambda>s. s) (weightReps ''100'' ''5'' None)
           = Some \<lparr>parsed_set = ws, completed = None\<rparr>) \<and>
   (\<exists>ws. parseSet (\<lambda>s. s) (\<lambda>s. s) (weightReps ''110'' ''3'' (Some False))
           = Some \<lparr>parsed_set = ws, completed = Some False\<rparr>)"
  using parseSet_markers [of restTimer "\<lambda>s. s" "\<lambda>s. s"]
    parseSet_markers [of "weightReps ''100'' ''5'' None" "\<lambda>s. s" "\<lambda>s. s"]
    parseSet_markers [of "weightReps ''110'' ''3'' (Some False)" "\<lambda>s. s" "\<lambda>s. s"]
  by (simp add: restTimer_def weightReps_def)

section \<open>The log transformer\<close>

lemma partitionSpec_eq:
  "partitionSpec pf pi css =
     (map parsed_set (filter (\<lambda>p. completed p \<noteq> Some False)
                        (List.map_filter (parseSet pf pi) css)),
      map parsed_set (filter (\<lambda>p. completed p = Some False)
                        (List.map_filter (parseSet pf pi) css)))"
proof (induction css)
  case Nil
  show ?case by (simp add: List.map_filter_simps)
next
  case (Cons cs rest)
  show ?case
  proof (cases "parseSet pf pi cs")
    case None
    with Cons show ?thesis by (simp add: List.map_filter_simps)
  next
    case (Some p)
    with Cons show ?thesis
      by (cases "completed p") (auto simp: List.map_filter_simps)
  qed
qed

text \<open>
  C8: for every cell-set-group, the exercise's \<open>completedSets\<close> are exactly the decoded
  cell-sets whose flag is true or absent and its \<open>skippedSets\<close> exactly those whose flag is
  false, each in the cell-sets' order within the group: the two sequences are the ones the
  one-pass partition \<open>partitionSpec\<close> builds.
\<close>

theorem groupToExercise_partition:
  "completedSets (groupToExercise pf pi m g) = fst (partitionSpec pf pi (cellSets g)) \<and>
   skippedSets (groupToExercise pf pi m g) = snd (partitionSpec pf pi (cellSets g))"
  by (simp add: partitionSpec_eq groupToExercise_def Let_def)

theorem groupToExercise_partition_witness:
  "completedSets (groupToExercise (\<lambda>s. s) (\<lambda>s. s) Map.empty
      \<lparr>links = None,
       cellSets = [weightReps ''100'' ''5'' (Some True), restTimer,
                   weightReps ''110'' ''3'' (Some False), weightReps ''90'' ''8'' None]\<rparr>)
     = [\<lparr>weightKg = Some ''100'', reps = Some ''5'', rpe = None, distance = None,
         duration = None\<rparr>,
        \<lparr>weightKg = Some ''90'', reps = Some ''8'', rpe = None, distance = None,
         duration = None\<rparr>] \<and>
   snd (partitionSpec (\<lambda>s. s) (\<lambda>s. s)
      [weightReps ''100'' ''5'' (Some True), restTimer,
       weightReps ''110'' ''3'' (Some False), weightReps ''90'' ''8'' None])
     = [\<lparr>weightKg = Some ''110'', reps = Some ''3'', rpe = None, distance = None,
         duration = None\<rparr>]"
  using groupToExercise_partition [of "\<lambda>s. s" "\<lambda>s. s" Map.empty
      "\<lparr>links = None,
       cellSets = [weightReps ''100'' ''5'' (Some True), restTimer,
                   weightReps ''110'' ''3'' (Some False), weightReps ''90'' ''8'' None]\<rparr>"]
  by (simp add: groupToExercise_def weightReps_def restTimer_def parseSet_def
      parsedValue_def WEIGHT_CELL_TYPES_def List.map_filter_simps)

text \<open>
  C7: for every log list and measurement map, the output of \<open>transformLogs\<close> holds exactly
  the logs whose type tag is WORKOUT or LOG (one workout for each, none for any other
  log), in exactly the reverse of their input order.
\<close>

theorem transformLogs_reverse_of_kept:
  "length (transformLogs pf pi logs m) = length (filter keptType logs) \<and>
   (\<forall>i < length (filter keptType logs).
      transformLogs pf pi logs m ! i =
        logToWorkout pf pi m (filter keptType logs ! (length (filter keptType logs) - 1 - i))) \<and>
   map w_id (transformLogs pf pi logs m) = rev (map log_id (filter keptType logs)) \<and>
   (\<forall>w \<in> set (transformLogs pf pi logs m).
      \<exists>l \<in> set logs. (logType l = Some ''WORKOUT'' \<or> logType l = Some ''LOG'') \<and>
                     w = logToWorkout pf pi m l) \<and>
   (\<forall>l. keptType l \<longleftrightarrow> logType l = Some ''WORKOUT'' \<or> logType l = Some ''LOG'')"
proof -
  let ?kept = "filter keptType logs"
  have len: "length (transformLogs pf pi logs m) = length ?kept"
    by (simp add: transformLogs_def)
  have nth: "\<forall>i < length ?kept.
      transformLogs pf pi logs m ! i = logToWorkout pf pi m (?kept ! (length ?kept - 1 - i))"
    by (simp add: transformLogs_def rev_nth)
  have ids: "map w_id (transformLogs pf pi logs m) = rev (map log_id ?kept)"
    by (simp add: transformLogs_def rev_map logToWorkout_def Let_def comp_def)
  have src: "\<forall>w \<in> set (transformLogs pf pi logs m).
      \<exists>l \<in> set logs. (logType l = Some ''WORKOUT'' \<or> logType l = Some ''LOG'') \<and>
                     w = logToWorkout pf pi m l"
    by (auto simp: transformLogs_def keptType_def)
  from len nth ids src show ?thesis
    by (simp add: keptType_def)
qed

theorem transformLogs_reverse_of_kept_witness:
  "map w_id (transformLogs (\<lambda>s. s) (\<lambda>s. s)
       [makeLog ''a'' ''WORKOUT'' None [], makeLog ''b'' ''MEASUREMENT'' None [],
        makeLog ''c'' ''LOG'' None []] Map.empty) = [''c'', ''a''] \<and>
   length (filter keptType
       [makeLog ''a'' ''WORKOUT'' None [], makeLog ''b'' ''MEASUREMENT'' None [],
        makeLog ''c'' ''LOG'' None []]) = 2"
  using transformLogs_reverse_of_kept [of "\<lambda>s. s" "\<lambda>s. s"
       "[makeLog ''a'' ''WORKOUT'' None [], makeLog ''b'' ''MEASUREMENT'' None [],
        makeLog ''c'' ''LOG'' None []]" Map.empty]
  by (simp add: makeLog_def keptType_def)

text \<open>
  C9: every exercise of every workout that \<open>transformLogs\<close> returns has at least one set
  in \<open>completedSets\<close> or \<open>skippedSets\<close>; the exercises of a workout are the exercises of
  the log's groups without those whose two sequences are both empty.
\<close>

theorem transformLogs_exercises_nonempty:
  "(\<forall>w \<in> set (transformLogs pf pi logs m). \<forall>e \<in> set (exercises w).
      completedSets e \<noteq> [] \<or> skippedSets e \<noteq> []) \<and>
   (\<forall>l. exercises (logToWorkout pf pi m l) =
      filter (\<lambda>e. \<not> (completedSets e = [] \<and> skippedSets e = []))
        (map (groupToExercise pf pi m) (groupsOf l)))"
  by (auto simp: transformLogs_def logToWorkout_def Let_def intro: filter_cong)

theorem transformLogs_exercises_nonempty_witness:
  "map (\<lambda>w. map (\<lambda>e. (length (completedSets e), length (skippedSets e))) (exercises w))
     (transformLogs (\<lambda>s. s) (\<lambda>s. s)
        [makeLog ''a'' ''WORKOUT'' None
           [weightReps ''100'' ''5'' (Some True), restTimer,
            weightReps ''110'' ''3'' (Some False)],
         makeLog ''b'' ''WORKOUT'' None [restTimer]] Map.empty) = [[], [(1, 1)]]"
  using transformLogs_exercises_nonempty [of "\<lambda>s. s" "\<lambda>s. s"
        "[makeLog ''a'' ''WORKOUT'' None
           [weightReps ''100'' ''5'' (Some True), restTimer,
            weightReps ''110'' ''3'' (Some False)],
         makeLog ''b'' ''WORKOUT'' None [restTimer]]" Map.empty]
  by (simp add: makeLog_def weightReps_def restTimer_def transformLogs_def keptType_def
      logToWorkout_def groupsOf_def groupToExercise_def parseSet_def List.map_filter_simps)

text \<open>
  C10: for every log whose type tag is WORKOUT or LOG, \<open>transformLogs\<close> returns a workout,
  also when the log has no cell-set-groups or each of its exercises is dropped: that
  workout has an empty exercise sequence and stays in the output, so the output has as
  many workouts as there are such logs.
\<close>

theorem transformLogs_keeps_empty_workouts:
  "length (transformLogs pf pi logs m) = length (filter keptType logs) \<and>
   (\<forall>l \<in> set logs. logType l = Some ''WORKOUT'' \<or> logType l = Some ''LOG'' \<longrightarrow>
      (\<exists>w \<in> set (transformLogs pf pi logs m).
         w = logToWorkout pf pi m l \<and> w_id w = log_id l \<and>
         ((\<forall>g \<in> set (groupsOf l).
              completedSets (groupToExercise pf pi m g) = [] \<and>
              skippedSets (groupToExercise pf pi m g) = [])
           \<longrightarrow> exercises w = [])))"
proof -
  have len: "length (transformLogs pf pi logs m) = length (filter keptType logs)"
    by (simp add: transformLogs_def)
  have each: "\<exists>w \<in> set (transformLogs pf pi logs m).
         w = logToWorkout pf pi m l \<and> w_id w = log_id l \<and>
         ((\<forall>g \<in> set (groupsOf l).
              completedSets (groupToExercise pf pi m g) = [] \<and>
              skippedSets (groupToExercise pf pi m g) = [])
           \<longrightarrow> exercises w = [])"
    if l: "l \<in> set logs" "logType l = Some ''WORKOUT'' \<or> logType l = Some ''LOG''" for l
  proof -
    from l have mem: "logToWorkout pf pi m l \<in> set (transformLogs pf pi logs m)"
      by (simp add: transformLogs_def keptType_def)
    have wid: "w_id (logToWorkout pf pi m l) = log_id l"
      by (simp add: logToWorkout_def Let_def)
    have emp: "exercises (logToWorkout pf pi m l) = []"
      if "\<forall>g \<in> set (groupsOf l).
              completedSets (groupToExercise pf pi m g) = [] \<and>
              skippedSets (groupToExercise pf pi m g) = []"
      using that by (simp add: logToWorkout_def Let_def filter_empty_conv)
    from mem wid emp show ?thesis by blast
  qed
  from len each show ?thesis by blast
qed

theorem transformLogs_keeps_empty_workouts_witness:
  "map (\<lambda>w. (w_id w, exercises w)) (transformLogs (\<lambda>s. s) (\<lambda>s. s)
      [makeLog ''a'' ''WORKOUT'' None [restTimer],
       (makeLog ''b'' ''LOG'' None []) \<lparr>embedded := None\<rparr>] Map.empty)
     = [(''b'', []), (''a'', [])]"
  using transformLogs_keeps_empty_workouts [of "\<lambda>s. s" "\<lambda>s. s"
      "[makeLog ''a'' ''WORKOUT'' None [restTimer],
       (makeLog ''b'' ''LOG'' None []) \<lparr>embedded := None\<rparr>]" Map.empty]
  by (simp add: makeLog_def restTimer_def transformLogs_def keptType_def logToWorkout_def
      groupsOf_def groupToExercise_def parseSet_def List.map_filter_simps)

text \<open>
  C1, as the code has it: the workout's display name is the log's primary name when
  that is present, also when a custom name is present too; the custom name is used only
  when the primary one is absent; with both absent, or no name object at all, the
  workout's name is absent.
\<close>

theorem transformLogs_name_primary_first:
  "\<forall>l \<in> set logs. logType l = Some ''WORKOUT'' \<or> logType l = Some ''LOG'' \<longrightarrow>
     (\<exists>w \<in> set (transformLogs pf pi logs m).
        w = logToWorkout pf pi m l \<and>
        (\<forall>n p. log_name l = Some n \<and> en n = Some p \<longrightarrow> w_name w = Some p) \<and>
        (\<forall>n. log_name l = Some n \<and> en n = None \<longrightarrow> w_name w = custom n) \<and>
        (log_name l = None \<longrightarrow> w_name w = None))"
  by (auto simp: transformLogs_def keptType_def logToWorkout_def)

theorem transformLogs_name_primary_first_witness:
  "map w_name (transformLogs (\<lambda>s. s) (\<lambda>s. s)
      [makeLog ''l1'' ''WORKOUT'' (Some \<lparr>en = Some ''Primary'', custom = Some ''Custom''\<rparr>) [],
       makeLog ''l2'' ''WORKOUT'' (Some \<lparr>en = None, custom = Some ''My Workout''\<rparr>) [],
       makeLog ''l3'' ''LOG'' None []]
      Map.empty) = [None, Some ''My Workout'', Some ''Primary'']"
  using transformLogs_name_primary_first [of
      "[makeLog ''l1'' ''WORKOUT'' (Some \<lparr>en = Some ''Primary'', custom = Some ''Custom''\<rparr>) [],
       makeLog ''l2'' ''WORKOUT'' (Some \<lparr>en = None, custom = Some ''My Workout''\<rparr>) [],
       makeLog ''l3'' ''LOG'' None []]" "\<lambda>s. s" "\<lambda>s. s" Map.empty]
  by (simp add: makeLog_def transformLogs_def keptType_def logToWorkout_def)

text \<open>
  C1 as stated fails: a log with primary name "Primary" and custom name "Custom" becomes
  a workout named "Primary", not "Custom".
\<close>

theorem transformLogs_custom_wins_counterexample:
  "map w_name (transformLogs (\<lambda>s. s) (\<lambda>s. s)
      [makeLog ''log-1'' ''WORKOUT'' (Some \<lparr>en = Some ''Primary'', custom = Some ''Custom''\<rparr>) []]
      Map.empty) = [Some ''Primary''] \<and>
   map w_name (transformLogs (\<lambda>s. s) (\<lambda>s. s)
      [makeLog ''log-1'' ''WORKOUT'' (Some \<lparr>en = Some ''Primary'', custom = Some ''Custom''\<rparr>) []]
      Map.empty) \<noteq> [Some ''Custom'']"
  by (simp add: makeLog_def transformLogs_def keptType_def logToWorkout_def)

section \<open>The CSV serializer\<close>

lemma replaceQuotes_Nil: "replaceQuotes [] = []"
  by (simp add: replaceQuotes_def)

lemma replaceQuotes_Cons:
  "replaceQuotes (c # s) =
     (if c = dquote then dquote # dquote # replaceQuotes s else c # replaceQuotes s)"
  by (simp add: replaceQuotes_def)

lemma replaceQuotes_plain: "dquote \<notin> set s \<Longrightarrow> replaceQuotes s = s"
  by (induction s) (auto simp: replaceQuotes_Nil replaceQuotes_Cons)

lemma exerciseRows_upt:
  "exerciseRows sn w =
     (\<lambda>e. map (\<lambda>i. join '','' (rowFields sn w e i (allSets e ! i))) [0..<length (allSets e)])"
proof (rule ext)
  fix e
  show "exerciseRows sn w e =
     map (\<lambda>i. join '','' (rowFields sn w e i (allSets e ! i))) [0..<length (allSets e)]"
    unfolding exerciseRows_def
    by (rule nth_equalityI) (simp_all add: nth_enumerate_eq)
qed

lemma csvLines_exact:
  "csvLines sn d =
     CSV_HEADER #
     concat (map (\<lambda>w. concat (map (\<lambda>e.
        map (\<lambda>i. join '','' (rowFields sn w e i (allSets e ! i))) [0..<length (allSets e)])
        (exercises w))) (workouts d))"
  by (simp add: csvLines_def exerciseRows_upt)

lemma csvLines_rows_set:
  "set (tl (csvLines sn d)) =
     {join '','' (rowFields sn w e i (allSets e ! i)) | w e i.
        w \<in> set (workouts d) \<and> e \<in> set (exercises w) \<and> i < length (allSets e)}"
proof (intro equalityI subsetI)
  fix x
  assume "x \<in> set (tl (csvLines sn d))"
  then obtain w e i where "w \<in> set (workouts d)" "e \<in> set (exercises w)"
    "i < length (allSets e)" "x = join '','' (rowFields sn w e i (allSets e ! i))"
    by (auto simp: csvLines_exact)
  then show "x \<in> {join '','' (rowFields sn w e i (allSets e ! i)) | w e i.
        w \<in> set (workouts d) \<and> e \<in> set (exercises w) \<and> i < length (allSets e)}"
    by blast
next
  fix x
  assume "x \<in> {join '','' (rowFields sn w e i (allSets e ! i)) | w e i.
        w \<in> set (workouts d) \<and> e \<in> set (exercises w) \<and> i < length (allSets e)}"
  then obtain w e i where h: "w \<in> set (workouts d)" "e \<in> set (exercises w)"
    "i < length (allSets e)" "x = join '','' (rowFields sn w e i (allSets e ! i))"
    by blast
  from h(3) have "i \<in> set [0..<length (allSets e)]" by simp
  with h show "x \<in> set (tl (csvLines sn d))"
    unfolding csvLines_exact by (simp del: set_upt) blast
qed

lemma row_rendering:
  "join '','' (rowFields sn w e i st) =
     orEmpty (\<lambda>x. x) (startDate w) @ '','' @
     [dquote] @ replaceQuotes (case w_name w of None \<Rightarrow> [] | Some n \<Rightarrow> n) @ [dquote] @ '','' @
     [dquote] @ replaceQuotes (ex_name e) @ [dquote] @ '','' @
     join '','' (drop 3 (rowFields sn w e i st))"
  by (simp add: rowFields_def orEmpty_def)

text \<open>
  C3, as the code has it: the CSV output is the header line followed by exactly one line
  for each set of each exercise of each workout, in order, and nothing else; in every one
  of these lines the workout name and the exercise name are rendered between double
  quotes, whether or not the name contains a comma or a quote character, with every
  embedded quote character doubled; an absent workout name is rendered as two quote
  characters.
\<close>

theorem toCSV_names_always_quoted:
  "toCSV sn d = join [newline] (csvLines sn d) \<and>
   csvLines sn d =
     CSV_HEADER #
     concat (map (\<lambda>w. concat (map (\<lambda>e.
        map (\<lambda>i. join '','' (rowFields sn w e i (allSets e ! i))) [0..<length (allSets e)])
        (exercises w))) (workouts d)) \<and>
   set (tl (csvLines sn d)) =
     {join '','' (rowFields sn w e i (allSets e ! i)) | w e i.
        w \<in> set (workouts d) \<and> e \<in> set (exercises w) \<and> i < length (allSets e)} \<and>
   (\<forall>w e i st.
      join '','' (rowFields sn w e i st) =
        orEmpty (\<lambda>x. x) (startDate w) @ '','' @
        [dquote] @ replaceQuotes (case w_name w of None \<Rightarrow> [] | Some n \<Rightarrow> n) @ [dquote] @ '','' @
        [dquote] @ replaceQuotes (ex_name e) @ [dquote] @ '','' @
        join '','' (drop 3 (rowFields sn w e i st)) \<and>
      rowFields sn w e i st ! 1 =
        [dquote] @ replaceQuotes (case w_name w of None \<Rightarrow> [] | Some n \<Rightarrow> n) @ [dquote] \<and>
      rowFields sn w e i st ! 2 = [dquote] @ replaceQuotes (ex_name e) @ [dquote]) \<and>
   (\<forall>c s. replaceQuotes (c # s) =
      (if c = dquote then dquote # dquote # replaceQuotes s else c # replaceQuotes s)) \<and>
   replaceQuotes [] = []"
proof -
  have fields: "rowFields sn w e i st ! 1 =
        [dquote] @ replaceQuotes (case w_name w of None \<Rightarrow> [] | Some n \<Rightarrow> n) @ [dquote] \<and>
      rowFields sn w e i st ! 2 = [dquote] @ replaceQuotes (ex_name e) @ [dquote]"
    for w :: "'a Workout" and e :: "'a WorkoutExercise" and i st
    by (simp add: rowFields_def orEmpty_def)
  from fields show ?thesis
    using csvLines_exact [of sn d] csvLines_rows_set [of sn d] row_rendering [of sn]
    by (simp add: toCSV_def replaceQuotes_Nil replaceQuotes_Cons)
qed

theorem toCSV_names_always_quoted_witness:
  "tl (csvLines (\<lambda>s. s) pushDay) =
     [''2026-02-15T10:00:00Z,'' @ [dquote] @ ''Push Day'' @ [dquote] @ '','' @
      [dquote] @ ''Bench Press (Barbell)'' @ [dquote] @ '',1,80,5,,,,completed''] \<and>
   set (tl (csvLines (\<lambda>s. s) pushDay)) \<noteq> {}"
  using toCSV_names_always_quoted [of "\<lambda>s. s" pushDay]
  by (simp add: csvLines_def exerciseRows_def allSets_def rowFields_def pushDay_def
      orEmpty_def replaceQuotes_def dquote_def showNat.simps)

text \<open>
  C3 as stated fails: "Push Day" and "Bench Press (Barbell)" contain neither a comma nor
  a quote character, and the row renders both between double quotes.
\<close>

theorem toCSV_unquoted_counterexample:
  "toCSV (\<lambda>s. s) pushDay =
     CSV_HEADER @ [newline] @
     ''2026-02-15T10:00:00Z,'' @ [dquote] @ ''Push Day'' @ [dquote] @ '','' @
     [dquote] @ ''Bench Press (Barbell)'' @ [dquote] @ '',1,80,5,,,,completed'' \<and>
   CHR '','' \<notin> set ''Push Day'' \<and> dquote \<notin> set ''Push Day'' \<and>
   CHR '','' \<notin> set ''Bench Press (Barbell)'' \<and> dquote \<notin> set ''Bench Press (Barbell)''"
  by (simp add: toCSV_def csvLines_def exerciseRows_def allSets_def rowFields_def pushDay_def
      orEmpty_def replaceQuotes_def dquote_def showNat.simps)

section \<open>The measurement lookup builder\<close>

lemma fetchFromEndpoint_stops:
  "\<forall>i<k. continuing (server (page + i)) \<Longrightarrow> badStatus (server (page + k)) \<Longrightarrow> k < fuel \<Longrightarrow>
     fetchFromEndpoint fuel server page mp = Some (Inr (gatherPages server page k mp))"
proof (induction k arbitrary: fuel page mp)
  case 0
  then obtain f where "fuel = Suc f" by (cases fuel) auto
  with 0 show ?case
    by (auto simp: badStatus_def split: HttpResult.splits)
next
  case (Suc k)
  then obtain f where f: "fuel = Suc f" "k < f" by (cases fuel) auto
  from Suc.prems(1) have c0: "continuing (server page)" by force
  from Suc.prems(1) have rest: "\<forall>i<k. continuing (server (page + 1 + i))" by force
  from Suc.prems(2) have bad: "badStatus (server (page + 1 + k))" by simp
  from c0 obtain tx data where r: "server page = Response 200 tx (Some data)"
    "mp_next data" "measurementsOf data \<noteq> []"
    by (auto simp: continuing_def split: HttpResult.splits option.splits)
  have "fetchFromEndpoint fuel server page mp =
          fetchFromEndpoint f server (page + 1) (setAll mp (measurementsOf data))"
    using f r by simp
  also have "\<dots> = Some (Inr (gatherPages server (page + 1) k (setAll mp (measurementsOf data))))"
    using Suc.IH [OF rest bad f(2)] .
  finally show ?case using r by simp
qed

text \<open>
  C4, as the code has it: in the pagination of either measurement endpoint a response
  with a non-success status on any page, the very first page included, ends the
  pagination of that endpoint only, with no error and with the map as gathered so far;
  when it is the global catalog that stops, the user catalog is still fetched, starting
  from that map; when it is the user catalog, the whole fetch succeeds with the map
  gathered from both. Enough fuel is any number above the index of the page that stops.
\<close>

theorem fetchMeasurements_bad_status_ends_pages:
  "(\<forall>url k fuel mp.
      (\<forall>i<k. continuing (server url i)) \<and> badStatus (server url k) \<and> k < fuel \<longrightarrow>
      fetchFromEndpoint fuel (server url) 0 mp = Some (Inr (gatherPages (server url) 0 k mp))) \<and>
   (\<forall>k fuel.
      (\<forall>i<k. continuing (server ''api/measurements'' i)) \<and>
      badStatus (server ''api/measurements'' k) \<and> k < fuel \<longrightarrow>
      fetchMeasurements fuel server userId =
        catchAllApi ''Failed to fetch measurements''
          (fetchFromEndpoint fuel (server (''api/users/'' @ userId @ ''/measurements'')) 0
             (gatherPages (server ''api/measurements'') 0 k Map.empty))) \<and>
   (\<forall>k fuel mp1.
      fetchFromEndpoint fuel (server ''api/measurements'') 0 Map.empty = Some (Inr mp1) \<and>
      (\<forall>i<k. continuing (server (''api/users/'' @ userId @ ''/measurements'') i)) \<and>
      badStatus (server (''api/users/'' @ userId @ ''/measurements'') k) \<and> k < fuel \<longrightarrow>
      fetchMeasurements fuel server userId =
        Some (Inr (gatherPages (server (''api/users/'' @ userId @ ''/measurements'')) 0 k mp1)))"
proof -
  have A: "fetchFromEndpoint fuel (server url) 0 mp = Some (Inr (gatherPages (server url) 0 k mp))"
    if "\<forall>i<k. continuing (server url i)" "badStatus (server url k)" "k < fuel"
    for url k fuel mp
    using fetchFromEndpoint_stops [of k "server url" 0 fuel mp] that by simp
  have B: "fetchMeasurements fuel server userId =
        catchAllApi ''Failed to fetch measurements''
          (fetchFromEndpoint fuel (server (''api/users/'' @ userId @ ''/measurements'')) 0
             (gatherPages (server ''api/measurements'') 0 k Map.empty))"
    if "\<forall>i<k. continuing (server ''api/measurements'' i)"
      "badStatus (server ''api/measurements'' k)" "k < fuel" for k fuel
    using A [OF that, of Map.empty]
    by (simp add: fetchMeasurements_def)
  have C: "fetchMeasurements fuel server userId =
        Some (Inr (gatherPages (server (''api/users/'' @ userId @ ''/measurements'')) 0 k mp1))"
    if "fetchFromEndpoint fuel (server ''api/measurements'') 0 Map.empty = Some (Inr mp1)"
      "\<forall>i<k. continuing (server (''api/users/'' @ userId @ ''/measurements'') i)"
      "badStatus (server (''api/users/'' @ userId @ ''/measurements'') k)" "k < fuel"
    for k fuel mp1
    using A [OF that(2,3,4), of mp1] that(1)
    by (simp add: fetchMeasurements_def catchAllApi_def)
  from A B C show ?thesis by blast
qed

theorem fetchMeasurements_bad_status_ends_pages_witness:
  "(\<exists>mp. fetchMeasurements 2 exampleCatalog ''u1'' = Some (Inr mp) \<and>
         mp ''abc123'' = Some ''Squat (Barbell)'') \<and>
   continuing (exampleCatalog ''api/measurements'' 0) \<and>
   badStatus (exampleCatalog ''api/measurements'' 1) \<and>
   badStatus (exampleCatalog ''api/users/u1/measurements'' 0)"
  using fetchMeasurements_bad_status_ends_pages [of exampleCatalog "''u1''"]
  by (simp add: fetchMeasurements_def catchAllApi_def exampleCatalog_def continuing_def
      badStatus_def measurementsOf_def setAll_def measurementName_def numeral_2_eq_2)

text \<open>
  C4 as stated fails in its exception: when the very first page of both calls has status
  500, the fetch is no failure; it succeeds with the empty map.
\<close>

theorem fetchMeasurements_first_page_counterexample:
  "fetchMeasurements 1 (\<lambda>url page. Response 500 (Some ''err'') None) ''u1''
     = Some (Inr Map.empty)"
  by (simp add: fetchMeasurements_def catchAllApi_def)

section \<open>The log fetcher\<close>

text \<open>Whatever fails in the log fetcher, the failure that leaves it has the fixed message
  and no status: both are those of the \<^verbatim>\<open>catchAll\<close>.\<close>

lemma fetchWorkoutLogs_failure_shape:
  "fetchWorkoutLogs fuel server continuationOf = Some (Inl e) \<Longrightarrow>
     message e = ''Failed to fetch workout logs'' \<and> err_status e = None"
  by (auto simp: fetchWorkoutLogs_def catchAllApi_def split: option.splits sum.splits)

text \<open>
  C2 at a failing input: the first page answers 500 with body "boom". The fetch fails
  with a \<^verbatim>\<open>StrongApiError\<close>, but the one that leaves \<open>fetchWorkoutLogs\<close> has the message
  "Failed to fetch workout logs" and no status; the status 500 and the body text are
  only in the error kept as its cause.
\<close>

theorem fetchWorkoutLogs_status_dropped:
  "fetchWorkoutLogs 1 (\<lambda>continuation. Response 500 (Some ''boom'') None) (\<lambda>h. None)
     = Some (Inl (StrongApiError ''Failed to fetch workout logs'' None
                    (Some (StrongApiError ''Failed to fetch logs: 500 - boom'' (Some 500) None))))"
  by (simp add: fetchWorkoutLogs_def catchAllApi_def showNat.simps)

end
